theory Spec2Isabelle
  imports Complex_Main
begin

section \<open>Stateful ODE solvers of ContinuousNet\<close>

text \<open>
  A shallow embedding of \<^verbatim>\<open>continuous_net_jax/stateful_ode_solvers.py\<close>: the four
  single-step schemes, the scheme table and the two step drivers.

  Conventions of the embedding.
  \<^item> The integration variable \<open>x\<close> and every derivative \<open>k\<close> are arrays of one fixed
    shape; their type \<open>'a\<close> is a real vector space, \<open>+\<close> is the elementwise sum and
    \<open>c *\<^sub>R k\<close> the product of the float \<open>c\<close> with the array \<open>k\<close>. In the schemes
    floating-point arithmetic is idealised as arithmetic over the reals; the times at
    which they evaluate the parameters are given a second time with every operation
    rounded to double precision.
  \<^item> The auxiliary state has an arbitrary type \<open>'s\<close>, a parameter snapshot an arbitrary
    type \<open>'p\<close>.
  \<^item> Every function that evaluates \<open>params_of_t\<close> also returns the list of the times
    at which it did so, in the order of the calls. A driver returns the list of its events:
    each call of the scheme, followed by the evaluations the scheme made.
  \<^item> An exception is a value \<open>Inl e\<close> of a sum type.
\<close>

subsection \<open>Values\<close>

datatype error = ZeroDivisionError | ValueError | TypeError | KeyError

text \<open>\<open>ContinuousParameters\<close>: a parameter snapshot for every time.\<close>

type_synonym 'p ContinuousParameters = "real \<Rightarrow> 'p"

text \<open>\<open>RateEquation\<close>: \<open>f(p, x)\<close> returns the pair of the auxiliary state and the
  derivative.\<close>

type_synonym ('p, 's, 'a) RateEquation = "'p \<Rightarrow> 'a \<Rightarrow> 's \<times> 'a"

text \<open>
  What a scheme hands back with \<^verbatim>\<open>return\<close>: either a 2-tuple \<^verbatim>\<open>state, x\<close>, or one
  array alone.
\<close>

datatype ('s, 'a) retval = Tuple2 's 'a | Bare 'a

type_synonym ('p, 's, 'a) IntegrationScheme =
  "'p ContinuousParameters \<Rightarrow> 'a \<Rightarrow> real \<Rightarrow> ('p, 's, 'a) RateEquation \<Rightarrow> real
     \<Rightarrow> real list \<times> ('s, 'a) retval"

datatype event = Step real real | Query real

subsection \<open>The schemes\<close>

definition DT_OPEN_SET_EPS :: real where
  "DT_OPEN_SET_EPS = 1 / 100000"

text \<open>
  One stage \<^verbatim>\<open>f(params_of_t(t), x)\<close>: the parameters are evaluated at \<open>t\<close>, which is
  appended to the times evaluated so far, and the rate equation is applied.
\<close>

definition stage ::
  "'p ContinuousParameters \<Rightarrow> ('p, 's, 'a) RateEquation \<Rightarrow> real \<Rightarrow> 'a \<Rightarrow> real list
     \<Rightarrow> ('s \<times> 'a) \<times> real list" where
  "stage params_of_t f t x qs = (f (params_of_t t) x, qs @ [t])"

definition Euler :: "('p, 's, 'a::real_vector) IntegrationScheme" where
  "Euler params_of_t x t0 f Dt =
     (let ((state1, k1), q1) = stage params_of_t f t0 x []
      in (q1, Tuple2 state1 (x + Dt *\<^sub>R k1)))"

definition Midpoint :: "('p, 's, 'a::real_vector) IntegrationScheme" where
  "Midpoint params_of_t x t0 f Dt =
     (let ((state1, k1), q1) = stage params_of_t f t0 x [];
          x1 = x + (0.5 * Dt) *\<^sub>R k1;
          ((state2, k2), q2) = stage params_of_t f (t0 + 0.5 * Dt) x1 q1
      in (q2, Tuple2 state2 (x + Dt *\<^sub>R k2)))"

definition RK4 :: "('p, 's, 'a::real_vector) IntegrationScheme" where
  "RK4 params_of_t x t0 f Dt =
     (let ((state1, k1), q1) = stage params_of_t f t0 x [];
          x1 = x + (0.5 * Dt) *\<^sub>R k1;
          ((state2, k2), q2) = stage params_of_t f (t0 + 0.5 * Dt) x1 q1;
          x2 = x + (0.5 * Dt) *\<^sub>R k2;
          ((state3, k3), q3) = stage params_of_t f (t0 + 0.5 * Dt) x2 q2;
          x3 = x + Dt *\<^sub>R k3;
          ((state4, k4), q4) = stage params_of_t f (t0 + Dt - DT_OPEN_SET_EPS) x3 q3
      in (q4, Bare (x + Dt *\<^sub>R ((1 / 6) *\<^sub>R k1 + (1 / 3) *\<^sub>R k2 + (1 / 3) *\<^sub>R k3
                                 + (1 / 6) *\<^sub>R k4))))"

definition RK4_38 :: "('p, 's, 'a::real_vector) IntegrationScheme" where
  "RK4_38 params_of_t x t0 f Dt =
     (let ((state1, k1), q1) = stage params_of_t f t0 x [];
          x1 = x + (1 / 3 * Dt) *\<^sub>R k1;
          ((state2, k2), q2) = stage params_of_t f (t0 + 1 / 3 * Dt) x1 q1;
          x2 = x + Dt *\<^sub>R ((- 1 / 3) *\<^sub>R k1 + 1 *\<^sub>R k2);
          ((state3, k3), q3) = stage params_of_t f (t0 + 2 / 3 * Dt) x2 q2;
          x3 = x + Dt *\<^sub>R (k1 - k2 + k3);
          ((state4, k4), q4) = stage params_of_t f (t0 + Dt - DT_OPEN_SET_EPS) x3 q3;
          xf = x + Dt *\<^sub>R ((1 / 8) *\<^sub>R k1 + (3 / 8) *\<^sub>R k2 + (3 / 8) *\<^sub>R k3
                            + (1 / 8) *\<^sub>R k4)
      in (q4, Tuple2 state4 xf))"

subsection \<open>The scheme table\<close>

definition SCHEME_TABLE :: "string \<rightharpoonup> ('p, 's, 'a::real_vector) IntegrationScheme" where
  "SCHEME_TABLE =
     [''Euler'' \<mapsto> Euler, ''Midpoint'' \<mapsto> Midpoint, ''RK4'' \<mapsto> RK4, ''RK4_38'' \<mapsto> RK4_38]"

text \<open>The subscription \<^verbatim>\<open>SCHEME_TABLE[name]\<close> of a Python dictionary.\<close>

definition SCHEME_TABLE_getitem ::
  "string \<Rightarrow> error + ('p, 's, 'a::real_vector) IntegrationScheme" where
  "SCHEME_TABLE_getitem name =
     (case SCHEME_TABLE name of None \<Rightarrow> Inl KeyError | Some scheme \<Rightarrow> Inr scheme)"

subsection \<open>The step drivers\<close>

text \<open>
  \<^verbatim>\<open>numpy.linspace(start, stop, num)\<close> with its default \<^verbatim>\<open>endpoint=True\<close>: \<open>num\<close>
  evenly spaced samples over the closed interval, the last one being \<open>stop\<close>; the
  spacing is \<open>(stop - start) / (num - 1)\<close>. One sample is \<open>start\<close> alone, and no sample
  is the empty array.
\<close>

definition linspace :: "real \<Rightarrow> real \<Rightarrow> nat \<Rightarrow> real list" where
  "linspace start stop num =
     (if num = 1 then [start]
      else map (\<lambda>i. start + real i * ((stop - start) / real (num - 1))) [0..<num])"

text \<open>
  The assignment \<^verbatim>\<open>state, x = scheme(...)\<close>. A 2-tuple binds its two components. Any
  other value is iterated and must yield exactly two items, of which \<open>x\<close> is the second.
  How an array iterates belongs to the array type, which \<^verbatim>\<open>continuous_types\<close> declares;
  it is the parameter \<open>iter\<close>: the items along the leading axis, or the exception raised.
  Both drivers bind \<open>state\<close> and never read it, so only \<open>x\<close> is kept.
\<close>

definition unpack2 :: "('a \<Rightarrow> error + 'a list) \<Rightarrow> ('s, 'a) retval \<Rightarrow> error + 'a" where
  "unpack2 iter r =
     (case r of
        Tuple2 state x \<Rightarrow> Inr x
      | Bare v \<Rightarrow>
          (case iter v of
             Inl e \<Rightarrow> Inl e
           | Inr items \<Rightarrow> if length items = 2 then Inr (items ! 1) else Inl ValueError))"

text \<open>A Python float (or a 0-dimensional array) is not iterable.\<close>

definition float_iter :: "real \<Rightarrow> error + real list" where
  "float_iter v = Inl TypeError"

text \<open>The loop \<^verbatim>\<open>for t in ...: state, x = scheme(params_of_t, x, t, f, dt)\<close>.\<close>

fun fast_loop ::
  "('a \<Rightarrow> error + 'a list) \<Rightarrow> 'p ContinuousParameters \<Rightarrow> ('p, 's, 'a) RateEquation
     \<Rightarrow> ('p, 's, 'a) IntegrationScheme \<Rightarrow> real \<Rightarrow> real list \<Rightarrow> 'a \<Rightarrow> event list
     \<Rightarrow> event list \<times> (error + 'a)" where
  "fast_loop iter params_of_t f scheme dt [] x tr = (tr, Inr x)"
| "fast_loop iter params_of_t f scheme dt (t # ts) x tr =
     (let (qs, r) = scheme params_of_t x t f dt;
          tr' = tr @ Step t dt # map Query qs
      in case unpack2 iter r of
           Inl e \<Rightarrow> (tr', Inl e)
         | Inr x' \<Rightarrow> fast_loop iter params_of_t f scheme dt ts x' tr')"

definition StateOdeIntegrateFast ::
  "('a \<Rightarrow> error + 'a list) \<Rightarrow> 'p ContinuousParameters \<Rightarrow> 'a \<Rightarrow> ('p, 's, 'a) RateEquation
     \<Rightarrow> ('p, 's, 'a) IntegrationScheme \<Rightarrow> int \<Rightarrow> event list \<times> (error + 'a)" where
  "StateOdeIntegrateFast iter params_of_t x f scheme n_step =
     (if n_step = 0 then ([], Inl ZeroDivisionError)
      else let dt = 1 / real_of_int n_step
           in if n_step < 0 then ([], Inl ValueError)
              else fast_loop iter params_of_t f scheme dt (linspace 0 1 (nat n_step)) x [])"

text \<open>
  The same loop with \<^verbatim>\<open>xs.append(onp.array(x))\<close> after every step; the conversion
  \<^verbatim>\<open>onp.array\<close> keeps the values of the array.
\<close>

fun points_loop ::
  "('a \<Rightarrow> error + 'a list) \<Rightarrow> 'p ContinuousParameters \<Rightarrow> ('p, 's, 'a) RateEquation
     \<Rightarrow> ('p, 's, 'a) IntegrationScheme \<Rightarrow> real \<Rightarrow> real list \<Rightarrow> 'a \<Rightarrow> 'a list \<Rightarrow> event list
     \<Rightarrow> event list \<times> (error + 'a list)" where
  "points_loop iter params_of_t f scheme dt [] x xs tr = (tr, Inr xs)"
| "points_loop iter params_of_t f scheme dt (t # ts) x xs tr =
     (let (qs, r) = scheme params_of_t x t f dt;
          tr' = tr @ Step t dt # map Query qs
      in case unpack2 iter r of
           Inl e \<Rightarrow> (tr', Inl e)
         | Inr x' \<Rightarrow> points_loop iter params_of_t f scheme dt ts x' (xs @ [x']) tr')"

definition StateOdeIntegrateWithPoints ::
  "('a \<Rightarrow> error + 'a list) \<Rightarrow> 'p ContinuousParameters \<Rightarrow> 'a \<Rightarrow> ('p, 's, 'a) RateEquation
     \<Rightarrow> ('p, 's, 'a) IntegrationScheme \<Rightarrow> int \<Rightarrow> event list \<times> (error + 'a list)" where
  "StateOdeIntegrateWithPoints iter params_of_t x f scheme n_step =
     (if n_step = 0 then ([], Inl ZeroDivisionError)
      else let dt = 1 / real_of_int n_step
           in if n_step < 0 then ([], Inl ValueError)
              else points_loop iter params_of_t f scheme dt (linspace 0 1 (nat n_step)) x [x] [])"

subsection \<open>Stage times in double precision\<close>




text \<open>
  The times at which each scheme evaluates \<open>params_of_t\<close>, as the source writes them:
  \<^verbatim>\<open>t0\<close>, \<^verbatim>\<open>t0 + 0.5 * Dt\<close>, \<^verbatim>\<open>t0 + 1.0/3.0 * Dt\<close>, \<^verbatim>\<open>t0 + 2.0/3.0 * Dt\<close> and
  \<^verbatim>\<open>t0 + Dt - DT_OPEN_SET_EPS\<close>, where \<open>t0\<close> and \<open>Dt\<close> are doubles. Every operation
  and every literal that is not a double itself is rounded by \<open>rnd\<close>: with the identity
  for \<open>rnd\<close> these are the times of the schemes above, with \<open>binary64\<close> they are the
  times the program computes.
\<close>

definition Euler_stage_times :: "(real \<Rightarrow> real) \<Rightarrow> real \<Rightarrow> real \<Rightarrow> real list" where
  "Euler_stage_times rnd t0 Dt = [t0]"

definition Midpoint_stage_times :: "(real \<Rightarrow> real) \<Rightarrow> real \<Rightarrow> real \<Rightarrow> real list" where
  "Midpoint_stage_times rnd t0 Dt = [t0, rnd (t0 + rnd (0.5 * Dt))]"

definition RK4_stage_times :: "(real \<Rightarrow> real) \<Rightarrow> real \<Rightarrow> real \<Rightarrow> real list" where
  "RK4_stage_times rnd t0 Dt =
     [t0, rnd (t0 + rnd (0.5 * Dt)), rnd (t0 + rnd (0.5 * Dt)),
      rnd (rnd (t0 + Dt) - rnd DT_OPEN_SET_EPS)]"

definition RK4_38_stage_times :: "(real \<Rightarrow> real) \<Rightarrow> real \<Rightarrow> real \<Rightarrow> real list" where
  "RK4_38_stage_times rnd t0 Dt =
     [t0, rnd (t0 + rnd (rnd (1 / 3) * Dt)), rnd (t0 + rnd (rnd (2 / 3) * Dt)),
      rnd (rnd (t0 + Dt) - rnd DT_OPEN_SET_EPS)]"

section \<open>Properties\<close>

subsection \<open>Auxiliary lemmas\<close>

lemma length_linspace: "length (linspace start stop num) = num"
  by (simp add: linspace_def)

lemma linspace_nth:
  "i < num \<Longrightarrow> linspace 0 1 num ! i = (if num = 1 then 0 else real i / real (num - 1))"
  by (auto simp: linspace_def)

lemma last_linspace: "2 \<le> num \<Longrightarrow> last (linspace 0 1 num) = 1"
  by (simp add: linspace_def last_conv_nth)

lemma linspace_Cons: "0 < num \<Longrightarrow> linspace 0 1 num = 0 # tl (linspace 0 1 num)"
  by (simp add: linspace_def upt_conv_Cons)

text \<open>An exception at the first unpacking ends the loop after that one call.\<close>

lemma fast_loop_first_raises:
  "unpack2 iter (snd (scheme params_of_t x t f dt)) = Inl e \<Longrightarrow>
   fast_loop iter params_of_t f scheme dt (t # ts) x tr
     = (tr @ Step t dt # map Query (fst (scheme params_of_t x t f dt)), Inl e)"
  by (simp add: split_beta)

lemma unpack2_Tuple2: "unpack2 iter (Tuple2 s y) = Inr y"
  by (simp add: unpack2_def)

text \<open>Euler, Midpoint and RK4\_38 return the auxiliary state of their last stage.\<close>

lemma Euler_returns_final_state:
  "snd (Euler params_of_t x t0 f Dt) =
     Tuple2 (fst (f (params_of_t t0) x)) (x + Dt *\<^sub>R snd (f (params_of_t t0) x))"
  by (simp add: Euler_def stage_def split_beta)

lemma Midpoint_returns_final_state:
  "let k1 = snd (f (params_of_t t0) x);
       x1 = x + (Dt / 2) *\<^sub>R k1;
       (state2, k2) = f (params_of_t (t0 + Dt / 2)) x1
   in snd (Midpoint params_of_t x t0 f Dt) = Tuple2 state2 (x + Dt *\<^sub>R k2)"
  by (simp add: Midpoint_def stage_def Let_def split_beta)

lemma RK4_38_returns_pair:
  "\<exists>state4 xf. snd (RK4_38 params_of_t x t0 f Dt) = Tuple2 state4 xf"
  by (simp add: RK4_38_def stage_def Let_def split_beta)

text \<open>
  The recording loop when the scheme returns a 2-tuple at every call: it does not fail,
  appends one snapshot per grid point, and each snapshot is the scheme's new state at the
  snapshot before it.
\<close>

lemma points_loop_conforming:
  assumes conf: "\<forall>x t. \<exists>qs s y. scheme params_of_t x t f dt = (qs, Tuple2 s y)"
  shows "\<exists>tr' ys. points_loop iter params_of_t f scheme dt ts x xs tr = (tr', Inr (xs @ ys))
            \<and> length ys = length ts
            \<and> (\<forall>i < length ts. \<exists>qs s. scheme params_of_t ((x # ys) ! i) (ts ! i) f dt
                                         = (qs, Tuple2 s (ys ! i)))"
proof (induction ts arbitrary: x xs tr)
  case Nil
  show ?case by simp
next
  case (Cons t ts)
  from conf obtain qs s y where step: "scheme params_of_t x t f dt = (qs, Tuple2 s y)"
    by blast
  from Cons.IH [of y "xs @ [y]" "tr @ Step t dt # map Query qs"]
  obtain tr' ys where
    run: "points_loop iter params_of_t f scheme dt ts y (xs @ [y]) (tr @ Step t dt # map Query qs)
            = (tr', Inr ((xs @ [y]) @ ys))"
    and len: "length ys = length ts"
    and steps: "\<forall>i < length ts. \<exists>qs s. scheme params_of_t ((y # ys) ! i) (ts ! i) f dt
                                         = (qs, Tuple2 s (ys ! i))"
    by blast
  have "points_loop iter params_of_t f scheme dt (t # ts) x xs tr = (tr', Inr (xs @ y # ys))"
    using step run by (simp add: unpack2_Tuple2)
  moreover have "length (y # ys) = length (t # ts)"
    using len by simp
  moreover have "\<forall>i < length (t # ts). \<exists>qs s.
      scheme params_of_t ((x # y # ys) ! i) ((t # ts) ! i) f dt = (qs, Tuple2 s ((y # ys) ! i))"
  proof (intro allI impI)
    fix i assume "i < length (t # ts)"
    then show "\<exists>qs s. scheme params_of_t ((x # y # ys) ! i) ((t # ts) ! i) f dt
                        = (qs, Tuple2 s ((y # ys) ! i))"
      using step steps by (cases i) auto
  qed
  ultimately show ?case by blast
qed

text \<open>
  The two loops run in lockstep: same events, same exception if any, and the state of
  the fast loop is the last snapshot of the recording loop.
\<close>

lemma fast_loop_points_loop:
  "xs \<noteq> [] \<Longrightarrow> last xs = x \<Longrightarrow>
   fast_loop iter params_of_t f scheme dt ts x tr =
     (case points_loop iter params_of_t f scheme dt ts x xs tr of
        (tr', Inl e) \<Rightarrow> (tr', Inl e)
      | (tr', Inr ys) \<Rightarrow> (tr', Inr (last ys)))"
proof (induction ts arbitrary: x xs tr)
  case Nil
  then show ?case by simp
next
  case (Cons t ts)
  show ?case
  proof (cases "scheme params_of_t x t f dt")
    case (Pair qs r)
    show ?thesis
    proof (cases "unpack2 iter r")
      case (Inl e)
      with Pair show ?thesis by simp
    next
      case (Inr x')
      have "fast_loop iter params_of_t f scheme dt ts x' (tr @ Step t dt # map Query qs) =
        (case points_loop iter params_of_t f scheme dt ts x' (xs @ [x'])
                (tr @ Step t dt # map Query qs) of
           (tr', Inl e) \<Rightarrow> (tr', Inl e)
         | (tr', Inr ys) \<Rightarrow> (tr', Inr (last ys)))"
        by (rule Cons.IH) simp_all
      with Pair Inr show ?thesis by simp
    qed
  qed
qed

text \<open>
  With a scheme that returns a pair at every call the recording driver returns
  \<open>n_step + 1\<close> snapshots: the input first, then the new state of each step.
\<close>

lemma with_points_snapshots:
  assumes n: "1 \<le> n_step"
    and conf: "\<forall>x t. \<exists>qs s y.
                 scheme params_of_t x t f (1 / real_of_int n_step) = (qs, Tuple2 s y)"
  shows "\<exists>xs. snd (StateOdeIntegrateWithPoints iter params_of_t x f scheme n_step) = Inr xs
            \<and> length xs = nat n_step + 1
            \<and> xs ! 0 = x
            \<and> (\<forall>i < nat n_step. \<exists>qs s.
                  scheme params_of_t (xs ! i) (linspace 0 1 (nat n_step) ! i) f
                      (1 / real_of_int n_step)
                    = (qs, Tuple2 s (xs ! (i + 1))))"
proof -
  let ?dt = "1 / real_of_int n_step"
  let ?ts = "linspace 0 1 (nat n_step)"
  from points_loop_conforming [of scheme params_of_t f ?dt iter ?ts x "[x]" "[]", OF conf]
  obtain tr' ys where
    run: "points_loop iter params_of_t f scheme ?dt ?ts x [x] [] = (tr', Inr ([x] @ ys))"
    and len: "length ys = length ?ts"
    and steps: "\<forall>i < length ?ts. \<exists>qs s. scheme params_of_t ((x # ys) ! i) (?ts ! i) f ?dt
                                         = (qs, Tuple2 s (ys ! i))"
    by blast
  have "snd (StateOdeIntegrateWithPoints iter params_of_t x f scheme n_step) = Inr (x # ys)"
    using n run by (simp add: StateOdeIntegrateWithPoints_def)
  moreover have "length (x # ys) = nat n_step + 1"
    using len by (simp add: length_linspace)
  moreover have "(x # ys) ! 0 = x" by simp
  moreover have "\<forall>i < nat n_step. \<exists>qs s.
      scheme params_of_t ((x # ys) ! i) (?ts ! i) f ?dt = (qs, Tuple2 s ((x # ys) ! (i + 1)))"
    using steps by (simp add: length_linspace)
  ultimately show ?thesis by blast
qed


text \<open>Over the reals every time of a step of size \<open>Dt > 0\<close> is in \<open>[t0, t0 + Dt)\<close>.\<close>

lemma exact_queries_inside_step:
  assumes "0 < Dt"
  shows "fst (Euler params_of_t x t0 f Dt) = [t0]
    \<and> fst (Midpoint params_of_t x t0 f Dt) = [t0, t0 + Dt / 2]
    \<and> fst (RK4 params_of_t x t0 f Dt)
        = [t0, t0 + Dt / 2, t0 + Dt / 2, t0 + Dt - DT_OPEN_SET_EPS]
    \<and> fst (RK4_38 params_of_t x t0 f Dt)
        = [t0, t0 + Dt / 3, t0 + 2 * Dt / 3, t0 + Dt - DT_OPEN_SET_EPS]
    \<and> DT_OPEN_SET_EPS = 1 / 100000
    \<and> (\<forall>t \<in> set (fst (Euler params_of_t x t0 f Dt))
              \<union> set (fst (Midpoint params_of_t x t0 f Dt)). t0 \<le> t \<and> t < t0 + Dt)
    \<and> (DT_OPEN_SET_EPS < Dt \<longrightarrow>
         (\<forall>t \<in> set (fst (RK4 params_of_t x t0 f Dt))
               \<union> set (fst (RK4_38 params_of_t x t0 f Dt)). t0 \<le> t \<and> t < t0 + Dt))"
  using assms
  by (simp add: Euler_def Midpoint_def RK4_def RK4_38_def stage_def Let_def split_beta
      DT_OPEN_SET_EPS_def)


text \<open>Without rounding the stage times are the times the schemes record.\<close>

lemma stage_times_exact:
  "fst (Euler params_of_t x t0 f Dt) = Euler_stage_times (\<lambda>r. r) t0 Dt"
  "fst (Midpoint params_of_t x t0 f Dt) = Midpoint_stage_times (\<lambda>r. r) t0 Dt"
  "fst (RK4 params_of_t x t0 f Dt) = RK4_stage_times (\<lambda>r. r) t0 Dt"
  "fst (RK4_38 params_of_t x t0 f Dt) = RK4_38_stage_times (\<lambda>r. r) t0 Dt"
  by (simp_all add: Euler_def Midpoint_def RK4_def RK4_38_def stage_def Let_def split_beta
      Euler_stage_times_def Midpoint_stage_times_def RK4_stage_times_def
      RK4_38_stage_times_def)

subsection \<open>Rounding to double precision\<close>






















subsection \<open>The claims\<close>

text \<open>
  C1. Every scheme is to return the pair of the auxiliary state of its final stage and
  the new state. RK4 does not: its \<^verbatim>\<open>return\<close> carries the new state alone, and
  \<open>state4\<close> is dropped. At \<open>x = 1\<close>, \<open>t0 = 0\<close>, \<open>Dt = 1\<close> and \<open>f(p, x) = (None, -x)\<close>
  the value returned is the bare number \<open>3/8\<close>, not a pair.
\<close>

theorem RK4_returns_bare_state:
  "snd (RK4 (\<lambda>t. ()) (1::real) 0 (\<lambda>p x. (None :: unit option, - x)) 1) = Bare (3 / 8)
   \<and> \<not> (\<exists>state new_x.
          snd (RK4 (\<lambda>t. ()) (1::real) 0 (\<lambda>p x. (None :: unit option, - x)) 1)
            = Tuple2 state new_x)"
  by (simp add: RK4_def stage_def)

text \<open>
  C2. The drivers are to call the scheme at the start times \<open>i / n_step\<close>, all below 1.
  The grid is \<^verbatim>\<open>linspace(0, 1, n_step)\<close>, whose points are \<open>i / (n_step - 1)\<close> and end
  at 1. With \<open>n_step = 2\<close> and Euler both drivers call the scheme at 0 and at 1, each
  time with \<open>Dt = 1/2\<close>, and evaluate the parameters at 0 and at 1.
\<close>

theorem two_steps_start_at_zero_and_one:
  "fst (StateOdeIntegrateFast float_iter (\<lambda>t. ()) 1 (\<lambda>p x. (None :: unit option, - x)) Euler 2)
     = [Step 0 (1 / 2), Query 0, Step 1 (1 / 2), Query 1]
   \<and> fst (StateOdeIntegrateWithPoints float_iter (\<lambda>t. ()) 1 (\<lambda>p x. (None :: unit option, - x))
            Euler 2)
     = [Step 0 (1 / 2), Query 0, Step 1 (1 / 2), Query 1]"
  by (simp add: StateOdeIntegrateFast_def StateOdeIntegrateWithPoints_def linspace_def
      upt_conv_Cons Euler_def stage_def unpack2_def Let_def)

text \<open>
  C3. The scenario \<open>x = 1.0\<close>, \<open>f(p, x) = (None, -x)\<close>, constant parameters,
  \<open>n_step = 100\<close>, scheme RK4 is to give a value near \<open>exp (-1)\<close>. The fast driver
  raises TypeError in its first iteration instead: RK4 returns a bare float, which
  \<^verbatim>\<open>state, x = ...\<close> cannot unpack. The four stages of that one step are the only
  evaluations made.
\<close>

theorem RK4_scenario_raises:
  "StateOdeIntegrateFast float_iter (\<lambda>t. ()) 1 (\<lambda>p x. (None :: unit option, - x)) RK4 100
     = ([Step 0 (1 / 100), Query 0, Query (1 / 200), Query (1 / 200),
         Query (1 / 100 - 1 / 100000)],
        Inl TypeError)"
proof -
  let ?f = "\<lambda>p x. (None :: unit option, - x)"
  have grid: "linspace 0 1 (nat 100) = 0 # tl (linspace 0 1 (nat 100))"
    by (rule linspace_Cons) simp
  have queries: "fst (RK4 (\<lambda>t. ()) (1::real) 0 ?f (1 / 100))
      = [0, 1 / 200, 1 / 200, 1 / 100 - 1 / 100000]"
    by (simp add: RK4_def stage_def DT_OPEN_SET_EPS_def)
  have raises: "unpack2 float_iter (snd (RK4 (\<lambda>t. ()) (1::real) 0 ?f (1 / 100))) = Inl TypeError"
    by (simp add: RK4_def stage_def unpack2_def float_iter_def)
  have "fast_loop float_iter (\<lambda>t. ()) ?f RK4 (1 / 100) (0 # tl (linspace 0 1 (nat 100))) 1 []
      = ([] @ Step 0 (1 / 100) # map Query (fst (RK4 (\<lambda>t. ()) (1::real) 0 ?f (1 / 100))),
         Inl TypeError)"
    by (rule fast_loop_first_raises [where scheme = RK4 and params_of_t = "\<lambda>t. ()"
          and f = "?f" and x = 1 and t = 0 and dt = "1 / 100" and iter = float_iter,
          OF raises])
  then have "fast_loop float_iter (\<lambda>t. ()) ?f RK4 (1 / 100) (linspace 0 1 (nat 100)) 1 []
      = ([Step 0 (1 / 100), Query 0, Query (1 / 200), Query (1 / 200),
          Query (1 / 100 - 1 / 100000)], Inl TypeError)"
    unfolding queries grid [symmetric] by simp
  then show ?thesis
    by (simp add: StateOdeIntegrateFast_def)
qed




text \<open>
  C5. One RK4 step: \<open>k1\<close> is the derivative at \<open>(params_of_t t0, x)\<close>, \<open>k2\<close> at
  \<open>x1 = x + 0.5 Dt k1\<close>, \<open>k3\<close> at \<open>x2 = x + 0.5 Dt k2\<close>, \<open>k4\<close> at \<open>x3 = x + Dt k3\<close>
  (the parameters taken at \<open>t0 + Dt/2\<close>, \<open>t0 + Dt/2\<close> and \<open>t0 + Dt - \<epsilon>\<close>), and the value
  returned is the new state \<open>x + Dt (k1/6 + k2/3 + k3/3 + k4/6)\<close>.
\<close>

theorem RK4_step:
  fixes x :: "'a::real_vector"
  shows "let k1 = snd (f (params_of_t t0) x);
             x1 = x + (0.5 * Dt) *\<^sub>R k1;
             k2 = snd (f (params_of_t (t0 + Dt / 2)) x1);
             x2 = x + (0.5 * Dt) *\<^sub>R k2;
             k3 = snd (f (params_of_t (t0 + Dt / 2)) x2);
             x3 = x + Dt *\<^sub>R k3;
             k4 = snd (f (params_of_t (t0 + Dt - DT_OPEN_SET_EPS)) x3)
         in snd (RK4 params_of_t x t0 f Dt)
              = Bare (x + Dt *\<^sub>R (k1 /\<^sub>R 6 + k2 /\<^sub>R 3 + k3 /\<^sub>R 3 + k4 /\<^sub>R 6))"
  by (simp add: RK4_def stage_def Let_def split_beta inverse_eq_divide)

text \<open>
  C6. One RK4\_38 step: \<open>k1\<close> is the derivative at \<open>(params_of_t t0, x)\<close>, \<open>k2\<close> at
  \<open>x1 = x + Dt k1/3\<close> and time \<open>t0 + Dt/3\<close>, \<open>k3\<close> at \<open>x2 = x + Dt (-k1/3 + k2)\<close> and
  time \<open>t0 + 2 Dt/3\<close>, \<open>k4\<close> at \<open>x3 = x + Dt (k1 - k2 + k3)\<close> (and time
  \<open>t0 + Dt - \<epsilon>\<close>); the new state returned, beside the auxiliary state of the fourth
  stage, is \<open>x + Dt (k1/8 + 3 k2/8 + 3 k3/8 + k4/8)\<close>.
\<close>

theorem RK4_38_step:
  fixes x :: "'a::real_vector"
  shows "let k1 = snd (f (params_of_t t0) x);
             x1 = x + Dt *\<^sub>R (k1 /\<^sub>R 3);
             k2 = snd (f (params_of_t (t0 + Dt / 3)) x1);
             x2 = x + Dt *\<^sub>R (- (k1 /\<^sub>R 3) + k2);
             k3 = snd (f (params_of_t (t0 + 2 * Dt / 3)) x2);
             x3 = x + Dt *\<^sub>R (k1 - k2 + k3);
             (state4, k4) = f (params_of_t (t0 + Dt - DT_OPEN_SET_EPS)) x3
         in snd (RK4_38 params_of_t x t0 f Dt)
              = Tuple2 state4
                  (x + Dt *\<^sub>R (k1 /\<^sub>R 8 + (3 *\<^sub>R k2) /\<^sub>R 8 + (3 *\<^sub>R k3) /\<^sub>R 8 + k4 /\<^sub>R 8))"
  by (simp add: RK4_38_def stage_def Let_def split_beta inverse_eq_divide)

text \<open>
  C7. For \<open>n_step = N \<ge> 1\<close> the recording driver is to return \<open>N + 1\<close> snapshots. With
  the scheme RK4 it returns none: at \<open>n_step = 1\<close>, \<open>x = 1.0\<close> and \<open>f(p, x) = (None, -x)\<close>
  the one step ends in TypeError, because RK4 returns a bare float that
  \<^verbatim>\<open>state, x = ...\<close> cannot unpack.
\<close>

theorem with_points_RK4_raises:
  "StateOdeIntegrateWithPoints float_iter (\<lambda>t. ()) 1 (\<lambda>p x. (None :: unit option, - x)) RK4 1
     = ([Step 0 1, Query 0, Query (1 / 2), Query (1 / 2), Query (1 - 1 / 100000)],
        Inl TypeError)"
  by (simp add: StateOdeIntegrateWithPoints_def linspace_def RK4_def stage_def unpack2_def
      float_iter_def DT_OPEN_SET_EPS_def Let_def)

text \<open>
  C8. On the same inputs the fast driver returns what the recording driver returns last:
  the same events, the same exception if one is raised, and otherwise the final snapshot;
  its value is one state, with no auxiliary state beside it. For \<open>n_step \<ge> 1\<close> and a
  scheme that returns a pair at every call both drivers do return.
\<close>

theorem drivers_agree:
  "StateOdeIntegrateFast iter params_of_t x f scheme n_step =
     (case StateOdeIntegrateWithPoints iter params_of_t x f scheme n_step of
        (tr, Inl e) \<Rightarrow> (tr, Inl e)
      | (tr, Inr xs) \<Rightarrow> (tr, Inr (last xs)))
   \<and> (1 \<le> n_step
        \<and> (\<forall>x t. \<exists>qs s y.
              scheme params_of_t x t f (1 / real_of_int n_step) = (qs, Tuple2 s y))
      \<longrightarrow> (\<exists>tr xs. StateOdeIntegrateWithPoints iter params_of_t x f scheme n_step
                       = (tr, Inr xs)
                  \<and> StateOdeIntegrateFast iter params_of_t x f scheme n_step
                       = (tr, Inr (last xs))))"
proof -
  let ?dt = "1 / real_of_int n_step"
  let ?ts = "linspace 0 1 (nat n_step)"
  have agree: "StateOdeIntegrateFast iter params_of_t x f scheme n_step =
     (case StateOdeIntegrateWithPoints iter params_of_t x f scheme n_step of
        (tr, Inl e) \<Rightarrow> (tr, Inl e)
      | (tr, Inr xs) \<Rightarrow> (tr, Inr (last xs)))"
    using fast_loop_points_loop [of "[x]" x iter params_of_t f scheme ?dt ?ts "[]"]
    by (simp add: StateOdeIntegrateFast_def StateOdeIntegrateWithPoints_def)
  have "\<exists>tr xs. StateOdeIntegrateWithPoints iter params_of_t x f scheme n_step = (tr, Inr xs)
              \<and> StateOdeIntegrateFast iter params_of_t x f scheme n_step = (tr, Inr (last xs))"
    if n: "1 \<le> n_step"
      and conf: "\<forall>x t. \<exists>qs s y. scheme params_of_t x t f ?dt = (qs, Tuple2 s y)"
  proof -
    from points_loop_conforming [of scheme params_of_t f ?dt iter ?ts x "[x]" "[]", OF conf]
    obtain tr' ys where
      "points_loop iter params_of_t f scheme ?dt ?ts x [x] [] = (tr', Inr ([x] @ ys))"
      by blast
    then have "StateOdeIntegrateWithPoints iter params_of_t x f scheme n_step
                 = (tr', Inr (x # ys))"
      using n by (simp add: StateOdeIntegrateWithPoints_def)
    with agree show ?thesis by simp
  qed
  with agree show ?thesis by blast
qed

theorem drivers_agree_witness:
  "(1::int) \<le> 2
   \<and> (\<forall>x t. \<exists>qs s y. Euler (\<lambda>t. ()) (x::real) t (\<lambda>p x. (None :: unit option, - x))
                        (1 / real_of_int 2) = (qs, Tuple2 s y))
   \<and> (\<exists>tr xs. StateOdeIntegrateWithPoints float_iter (\<lambda>t. ()) 1
                   (\<lambda>p x. (None :: unit option, - x)) Euler 2 = (tr, Inr xs)
              \<and> StateOdeIntegrateFast float_iter (\<lambda>t. ()) 1
                   (\<lambda>p x. (None :: unit option, - x)) Euler 2 = (tr, Inr (last xs)))
   \<and> StateOdeIntegrateFast float_iter (\<lambda>t. ()) 1 (\<lambda>p x. (None :: unit option, - x)) Euler 2
     = ([Step 0 (1 / 2), Query 0, Step 1 (1 / 2), Query 1], Inr (1 / 4))"
proof -
  have n: "(1::int) \<le> 2" by simp
  have conf: "\<forall>x t. \<exists>qs s y. Euler (\<lambda>t. ()) (x::real) t (\<lambda>p x. (None :: unit option, - x))
                        (1 / real_of_int 2) = (qs, Tuple2 s y)"
    by (metis Euler_returns_final_state prod.collapse)
  note agree = drivers_agree [where iter = float_iter and params_of_t = "\<lambda>t. ()" and x = 1
      and f = "\<lambda>p x. (None :: unit option, - x)" and scheme = Euler and n_step = 2]
  have both: "\<exists>tr xs. StateOdeIntegrateWithPoints float_iter (\<lambda>t. ()) 1
                   (\<lambda>p x. (None :: unit option, - x)) Euler 2 = (tr, Inr xs)
              \<and> StateOdeIntegrateFast float_iter (\<lambda>t. ()) 1
                   (\<lambda>p x. (None :: unit option, - x)) Euler 2 = (tr, Inr (last xs))"
    by (rule agree [THEN conjunct2, THEN mp, OF conjI [OF n conf]])
  have run: "StateOdeIntegrateWithPoints float_iter (\<lambda>t. ()) 1
               (\<lambda>p x. (None :: unit option, - x)) Euler 2
     = ([Step 0 (1 / 2), Query 0, Step 1 (1 / 2), Query 1], Inr [1, 1 / 2, 1 / 4])"
    by (simp add: StateOdeIntegrateWithPoints_def linspace_def upt_conv_Cons Euler_def
        stage_def unpack2_def Let_def)
  have fast: "StateOdeIntegrateFast float_iter (\<lambda>t. ()) 1 (\<lambda>p x. (None :: unit option, - x))
                Euler 2
     = ([Step 0 (1 / 2), Query 0, Step 1 (1 / 2), Query 1], Inr (1 / 4))"
    unfolding agree [THEN conjunct1] run by simp
  from n conf both fast show ?thesis by blast
qed

text \<open>
  C9. Subscripting the scheme table with \<open>Euler\<close>, \<open>Midpoint\<close>, \<open>RK4\<close> or \<open>RK4_38\<close>
  gives the scheme of that name itself, so a step through the table is a step of that
  scheme; any other name raises KeyError and gives no value.
\<close>

theorem scheme_table_lookup:
  "SCHEME_TABLE_getitem ''Euler'' = Inr Euler
   \<and> SCHEME_TABLE_getitem ''Midpoint'' = Inr Midpoint
   \<and> SCHEME_TABLE_getitem ''RK4'' = Inr RK4
   \<and> SCHEME_TABLE_getitem ''RK4_38'' = Inr RK4_38
   \<and> (name \<notin> {''Euler'', ''Midpoint'', ''RK4'', ''RK4_38''} \<longrightarrow>
        (SCHEME_TABLE_getitem name :: error + ('p, 's, 'a::real_vector) IntegrationScheme)
          = Inl KeyError)"
  by (simp add: SCHEME_TABLE_getitem_def SCHEME_TABLE_def)

theorem scheme_table_lookup_witness:
  "''Heun'' \<notin> {''Euler'', ''Midpoint'', ''RK4'', ''RK4_38''}
   \<and> (SCHEME_TABLE_getitem ''Heun'' :: error + (unit, unit option, real) IntegrationScheme)
       = Inl KeyError"
proof -
  have other: "''Heun'' \<notin> {''Euler'', ''Midpoint'', ''RK4'', ''RK4_38''}" by simp
  have key: "''Heun'' \<notin> {''Euler'', ''Midpoint'', ''RK4'', ''RK4_38''} \<longrightarrow>
    (SCHEME_TABLE_getitem ''Heun'' :: error + (unit, unit option, real) IntegrationScheme)
       = Inl KeyError"
    by (rule scheme_table_lookup [where name = "''Heun''", THEN conjunct2, THEN conjunct2,
          THEN conjunct2, THEN conjunct2])
  from key [THEN mp, OF other]
  have raises: "(SCHEME_TABLE_getitem ''Heun''
      :: error + (unit, unit option, real) IntegrationScheme) = Inl KeyError" .
  from other raises show ?thesis by (rule conjI)
qed

text \<open>
  C10. With \<open>n_step = 0\<close> both drivers raise ZeroDivisionError at \<open>dt = 1.0 / n_step\<close>:
  no event has happened, so neither the scheme nor the rate equation was evaluated, and
  the loop over the empty grid is never reached.
\<close>

theorem n_step_zero_raises:
  "StateOdeIntegrateFast iter params_of_t x f scheme 0 = ([], Inl ZeroDivisionError)
   \<and> StateOdeIntegrateWithPoints iter params_of_t x f scheme 0 = ([], Inl ZeroDivisionError)"
  by (simp add: StateOdeIntegrateFast_def StateOdeIntegrateWithPoints_def)

end
